theory Spec2Isabelle
  imports Complex_Main "HOL-Library.Word"
begin

section \<open>The host: Python values, exceptions and the operating system\<close>

text \<open>
  The program is one Python module, \<^verbatim>\<open>main.py\<close>. Its functions act on the
  operating system through \<^verbatim>\<open>resource\<close>, \<^verbatim>\<open>psutil\<close> and
  \<^verbatim>\<open>subprocess\<close>. The part of the host that the functions touch is a record,
  threaded through every call; a raised exception is a value next to the state, because the
  effects that happened before the \<^verbatim>\<open>raise\<close> stay.
\<close>

datatype pyerr =
    ValueError | OverflowError | TypeError | AttributeError | IndexError
  | NoSuchProcess | AccessDenied
  | FileNotFoundError | PermissionError

datatype pyval = PyNone | PyInt int

text \<open>
  A process as the scheduler sees it: the set of CPUs it may run on and its nice value.
\<close>

record proc_entry =
  affinity :: "int set"
  niceness :: int

text \<open>
  \<^item> \<open>rlimit_as\<close>: the pair (soft, hard) of \<^verbatim>\<open>RLIMIT_AS\<close> of the supervising
    process itself, as the kernel stores it (\<^verbatim>\<open>rlim_t\<close>, unsigned 64 bit, all
    ones for \<^verbatim>\<open>RLIM_INFINITY\<close>);
  \<^item> \<open>privileged\<close>: the supervisor may raise hard limits and priorities;
  \<^item> \<open>cpu_count\<close>: what \<^verbatim>\<open>psutil.cpu_count(logical=True)\<close> returns
    (\<^verbatim>\<open>None\<close> when undetermined);
  \<^item> \<open>affinity_api\<close>: whether the platform's \<^verbatim>\<open>psutil.Process\<close> has
    \<^verbatim>\<open>cpu_affinity\<close>;
  \<^item> \<open>procs\<close>: the process table, by pid;
  \<^item> \<open>inherit\<close>: the scheduling attributes of the supervisor, which a child
    inherits;
  \<^item> \<open>executables\<close>: the files a command name resolves to, with their execute
    permission;
  \<^item> \<open>next_pid\<close>: the pid the next child gets.
\<close>

record os_state =
  rlimit_as :: "64 word \<times> 64 word"
  privileged :: bool
  cpu_count :: "int option"
  affinity_api :: bool
  procs :: "int \<rightharpoonup> proc_entry"
  inherit :: proc_entry
  executables :: "string \<rightharpoonup> bool"
  next_pid :: int

type_synonym 'a outcome = "pyerr option \<times> 'a"

subsection \<open>The resource module\<close>

text \<open>
  CPython reads an \<^verbatim>\<open>rlim_t\<close> as a C long, so \<^verbatim>\<open>RLIM_INFINITY\<close> is
  \<open>-1\<close> in Python, and converts a Python integer with the C long conversion, which
  raises \<^verbatim>\<open>OverflowError\<close> outside the signed 64-bit range.
  \<^verbatim>\<open>setrlimit\<close> raises \<^verbatim>\<open>ValueError\<close> when the kernel answers
  \<^verbatim>\<open>EINVAL\<close> (the soft limit exceeds the hard limit) or \<^verbatim>\<open>EPERM\<close>
  (raising the hard limit without privilege).
\<close>

definition rlimit2py :: "64 word \<Rightarrow> int" where
  "rlimit2py w = sint w"

definition py2rlimit :: "int \<Rightarrow> pyerr + 64 word" where
  "py2rlimit v = (if - (2 ^ 63) \<le> v \<and> v < 2 ^ 63 then Inr (word_of_int v) else Inl OverflowError)"

definition getrlimit :: "os_state \<Rightarrow> int \<times> int" where
  "getrlimit s = (rlimit2py (fst (rlimit_as s)), rlimit2py (snd (rlimit_as s)))"

definition setrlimit :: "int \<times> int \<Rightarrow> os_state \<Rightarrow> os_state outcome" where
  "setrlimit limits s =
     (case py2rlimit (fst limits) of
        Inl e \<Rightarrow> (Some e, s)
      | Inr cur \<Rightarrow>
         (case py2rlimit (snd limits) of
            Inl e \<Rightarrow> (Some e, s)
          | Inr mx \<Rightarrow>
             if mx < cur then (Some ValueError, s)
             else if snd (rlimit_as s) < mx \<and> \<not> privileged s then (Some ValueError, s)
             else (None, s\<lparr>rlimit_as := (cur, mx)\<rparr>)))"

subsection \<open>The psutil module\<close>

text \<open>
  \<^verbatim>\<open>psutil.Process(pid)\<close> raises \<^verbatim>\<open>NoSuchProcess\<close> for a pid that is
  not in the process table. \<^verbatim>\<open>cpu_affinity(cpus)\<close> does not exist on a platform
  without affinity control (\<^verbatim>\<open>AttributeError\<close>), takes the empty list for all
  CPUs, and raises \<^verbatim>\<open>ValueError\<close> for a CPU number the host does not have.
  \<^verbatim>\<open>nice(v)\<close> sets the nice value, clamped to -20..19 by the kernel; lowering it
  needs privilege (\<^verbatim>\<open>AccessDenied\<close>).
\<close>

definition psutil_Process :: "int \<Rightarrow> os_state \<Rightarrow> pyerr + int" where
  "psutil_Process pid s = (case procs s pid of None \<Rightarrow> Inl NoSuchProcess | Some _ \<Rightarrow> Inr pid)"

definition py_range :: "int \<Rightarrow> int list" where
  "py_range n = [0 .. n - 1]"

definition cpu_affinity :: "int \<Rightarrow> int list \<Rightarrow> os_state \<Rightarrow> os_state outcome" where
  "cpu_affinity pid cpus s =
     (if \<not> affinity_api s then (Some AttributeError, s)
      else case procs s pid of
        None \<Rightarrow> (Some NoSuchProcess, s)
      | Some pr \<Rightarrow>
         (case cpu_count s of
            None \<Rightarrow> (Some ValueError, s)
          | Some n \<Rightarrow>
             let cpus' = (if cpus = [] then py_range n else cpus) in
             if list_all (\<lambda>c. 0 \<le> c \<and> c < n) cpus' \<and> cpus' \<noteq> []
             then (None, s\<lparr>procs := (procs s)(pid \<mapsto> pr\<lparr>affinity := set cpus'\<rparr>)\<rparr>)
             else (Some ValueError, s)))"

definition nice :: "int \<Rightarrow> int \<Rightarrow> os_state \<Rightarrow> os_state outcome" where
  "nice pid v s =
     (case procs s pid of
        None \<Rightarrow> (Some NoSuchProcess, s)
      | Some pr \<Rightarrow>
         let v' = max (- 20) (min 19 v) in
         if v' < niceness pr \<and> \<not> privileged s then (Some AccessDenied, s)
         else (None, s\<lparr>procs := (procs s)(pid \<mapsto> pr\<lparr>niceness := v'\<rparr>)\<rparr>))"

subsection \<open>Python arithmetic\<close>

text \<open>
  \<^verbatim>\<open>a / b\<close> on integers is true division and \<^verbatim>\<open>int(x)\<close> truncates
  towards zero. The quotient is kept exact here. CPython rounds it to the nearest binary64
  value; a quotient by 100 that is not an integer lies at least \<open>1/100\<close> away from
  the next integer, more than the rounding error of any quotient below \<open>2^46\<close>, so the
  integer part is the same for every CPU count times a percentage a host can have
  (lemma \<open>py_int_rounding_stable\<close> below).
\<close>

definition py_truediv :: "int \<Rightarrow> int \<Rightarrow> rat" where
  "py_truediv a b = of_int a / of_int b"

definition py_int :: "rat \<Rightarrow> int" where
  "py_int x = (if 0 \<le> x then \<lfloor>x\<rfloor> else \<lceil>x\<rceil>)"

section \<open>The actuators\<close>

text \<open>
  \<^verbatim>\<open>adjust_memory_limit(process, value)\<close> reads the limits of the calling
  process and writes back \<^verbatim>\<open>(value, hard)\<close>. The \<^verbatim>\<open>process\<close> argument
  (the \<^verbatim>\<open>Popen\<close> object, here its pid) is not used.
\<close>

definition adjust_memory_limit :: "int \<Rightarrow> int \<Rightarrow> os_state \<Rightarrow> os_state outcome" where
  "adjust_memory_limit process v s =
     (case getrlimit s of (soft, hard) \<Rightarrow> setrlimit (v, hard) s)"

definition num_cores :: "int \<Rightarrow> int \<Rightarrow> int" where
  "num_cores num_cpus v = max 1 (py_int (py_truediv (num_cpus * v) 100))"

definition adjust_cpu_limit :: "int \<Rightarrow> int \<Rightarrow> os_state \<Rightarrow> os_state outcome" where
  "adjust_cpu_limit process v s =
     (case psutil_Process process s of
        Inl e \<Rightarrow> (Some e, s)
      | Inr p \<Rightarrow>
         (case cpu_count s of
            None \<Rightarrow> (Some TypeError, s)
          | Some num_cpus \<Rightarrow>
             (case cpu_affinity p (py_range (num_cores num_cpus v)) s of
                (Some e, s') \<Rightarrow> (Some e, s')
              | (None, s') \<Rightarrow> nice p 10 s')))"

definition adjust_gpu_limit :: "int \<Rightarrow> int \<Rightarrow> os_state \<Rightarrow> os_state outcome" where
  "adjust_gpu_limit process v s = (None, s)"

definition get_max_memory :: int where
  "get_max_memory = 1024 * 1024 * 1024"

definition get_max_cpu :: int where
  "get_max_cpu = 50"

definition get_max_gpu :: int where
  "get_max_gpu = 50"

section \<open>The program: Supervisor and Monitor Loop\<close>

subsection \<open>Spawning\<close>

text \<open>
  \<^verbatim>\<open>subprocess.Popen(args)\<close> raises \<^verbatim>\<open>IndexError\<close> for an empty
  argument list, \<^verbatim>\<open>FileNotFoundError\<close> when the command does not resolve and
  \<^verbatim>\<open>PermissionError\<close> when the file may not be executed. Otherwise the child
  enters the process table with the attributes it inherits. The handle is the pid.
\<close>

definition Popen :: "string list \<Rightarrow> os_state \<Rightarrow> (pyerr + int) \<times> os_state" where
  "Popen args s =
     (case args of
        [] \<Rightarrow> (Inl IndexError, s)
      | exe # _ \<Rightarrow>
         (case executables s exe of
            None \<Rightarrow> (Inl FileNotFoundError, s)
          | Some x \<Rightarrow>
             if x then (Inr (next_pid s),
                        s\<lparr>procs := (procs s)(next_pid s \<mapsto> inherit s), next_pid := next_pid s + 1\<rparr>)
             else (Inl PermissionError, s)))"

subsection \<open>Two threads over one state\<close>

text \<open>
  \<^verbatim>\<open>run\<close> executes in the main thread and \<^verbatim>\<open>monitor_memory_and_cpu\<close>
  in a daemon thread. Each thread is a program counter over the statements of its function;
  a run of the program is a schedule, a list that says which thread takes the next step or
  that the child exits now with a code. What the Monitor Loop does is recorded in a trace.
\<close>

datatype resource_dim = Memory | Cpu | Gpu

datatype event = Queried resource_dim int | Invoked resource_dim int | Slept int

datatype main_pc =
    MainPopen | MainEvent | MainThread | MainWait | MainSet | MainReturn
  | MainReturned pyval | MainRaised pyerr

datatype mon_pc =
    MonNotStarted | MonCheck
  | MonGetMemory | MonGetCpu | MonGetGpu
  | MonAdjustMemory | MonAdjustCpu | MonAdjustGpu
  | MonSleep | MonStopped | MonRaised pyerr

datatype child_state = NotSpawned | Running | Exited int

text \<open>
  \<^item> \<open>host\<close>: the operating system; \<open>argv\<close>: \<^verbatim>\<open>sys.argv[1:]\<close>;
  \<^item> \<open>proc\<close>: the local \<^verbatim>\<open>proc\<close> of \<^verbatim>\<open>run\<close>, also the
    \<^verbatim>\<open>process\<close> argument of the monitor (written by \<open>MainPopen\<close>, not read
    before); \<open>returncode\<close>: \<^verbatim>\<open>proc.returncode\<close>, which
    \<^verbatim>\<open>proc.wait()\<close> fills in;
  \<^item> \<open>process_finished\<close>: whether the \<^verbatim>\<open>threading.Event\<close> is set;
  \<^item> \<open>max_memory_bytes\<close>, \<open>max_cpu_percent\<close>, \<open>max_gpu_percent\<close>: the
    locals of the monitor;
  \<^item> \<open>child\<close>: the liveness of the child; \<open>trace\<close>: the events of the monitor,
    oldest first.
\<close>

record sys =
  host :: os_state
  argv :: "string list"
  main_pc :: main_pc
  proc :: int
  returncode :: "int option"
  process_finished :: bool
  mon_pc :: mon_pc
  max_memory_bytes :: int
  max_cpu_percent :: int
  max_gpu_percent :: int
  child :: child_state
  trace :: "event list"

definition init_sys :: "os_state \<Rightarrow> string list \<Rightarrow> sys" where
  "init_sys h args =
     \<lparr>host = h, argv = args, main_pc = MainPopen, proc = 0, returncode = None,
      process_finished = False, mon_pc = MonNotStarted, max_memory_bytes = 0,
      max_cpu_percent = 0, max_gpu_percent = 0, child = NotSpawned, trace = []\<rparr>"

text \<open>
  \<^verbatim>\<open>run\<close>, statement by statement: \<^verbatim>\<open>Popen\<close> (an exception leaves
  \<^verbatim>\<open>run\<close> at once), the creation of the event, the start of the daemon thread,
  \<^verbatim>\<open>proc.wait()\<close> (blocked while the child runs; it reaps the child, whose pid
  leaves the process table), \<^verbatim>\<open>process_finished.set()\<close>, and the end of the
  function, which returns \<^verbatim>\<open>None\<close>.
\<close>

definition run_step :: "sys \<Rightarrow> sys" where
  "run_step s =
     (case main_pc s of
        MainPopen \<Rightarrow>
         (case Popen (argv s) (host s) of
            (Inl e, h) \<Rightarrow> s\<lparr>host := h, main_pc := MainRaised e\<rparr>
          | (Inr pid, h) \<Rightarrow> s\<lparr>host := h, proc := pid, child := Running, main_pc := MainEvent\<rparr>)
      | MainEvent \<Rightarrow> s\<lparr>process_finished := False, main_pc := MainThread\<rparr>
      | MainThread \<Rightarrow> s\<lparr>mon_pc := MonCheck, main_pc := MainWait\<rparr>
      | MainWait \<Rightarrow>
         (case child s of
            Exited code \<Rightarrow>
              s\<lparr>host := (host s)\<lparr>procs := (procs (host s))(proc s := None)\<rparr>,
                returncode := Some code, main_pc := MainSet\<rparr>
          | _ \<Rightarrow> s)
      | MainSet \<Rightarrow> s\<lparr>process_finished := True, main_pc := MainReturn\<rparr>
      | MainReturn \<Rightarrow> s\<lparr>main_pc := MainReturned PyNone\<rparr>
      | MainReturned v \<Rightarrow> s
      | MainRaised e \<Rightarrow> s)"

text \<open>
  The module calls \<^verbatim>\<open>run()\<close> and ends: the interpreter exits with status 0
  after a normal return and with status 1 after an uncaught exception. From then on the
  daemon thread does not run any more.
\<close>

definition exit_status :: "sys \<Rightarrow> int option" where
  "exit_status s =
     (case main_pc s of MainReturned v \<Rightarrow> Some 0 | MainRaised e \<Rightarrow> Some 1 | _ \<Rightarrow> None)"

definition halted :: "sys \<Rightarrow> bool" where
  "halted s = (case main_pc s of MainReturned v \<Rightarrow> True | MainRaised e \<Rightarrow> True | _ \<Rightarrow> False)"

text \<open>
  One call of an actuator from the loop body: the invocation is recorded, the host takes
  the effects, and an exception, which nothing in the loop catches, ends the thread.
\<close>

definition actuate :: "resource_dim \<Rightarrow> int \<Rightarrow> os_state outcome \<Rightarrow> mon_pc \<Rightarrow> sys \<Rightarrow> sys" where
  "actuate d v r next s =
     (case r of
        (None, h) \<Rightarrow> s\<lparr>host := h, trace := trace s @ [Invoked d v], mon_pc := next\<rparr>
      | (Some e, h) \<Rightarrow> s\<lparr>host := h, trace := trace s @ [Invoked d v], mon_pc := MonRaised e\<rparr>)"

definition monitor_memory_and_cpu_step :: "sys \<Rightarrow> sys" where
  "monitor_memory_and_cpu_step s =
     (if halted s then s
      else case mon_pc s of
        MonNotStarted \<Rightarrow> s
      | MonCheck \<Rightarrow>
          if process_finished s then s\<lparr>mon_pc := MonStopped\<rparr> else s\<lparr>mon_pc := MonGetMemory\<rparr>
      | MonGetMemory \<Rightarrow>
          s\<lparr>max_memory_bytes := get_max_memory,
            trace := trace s @ [Queried Memory get_max_memory], mon_pc := MonGetCpu\<rparr>
      | MonGetCpu \<Rightarrow>
          s\<lparr>max_cpu_percent := get_max_cpu,
            trace := trace s @ [Queried Cpu get_max_cpu], mon_pc := MonGetGpu\<rparr>
      | MonGetGpu \<Rightarrow>
          s\<lparr>max_gpu_percent := get_max_gpu,
            trace := trace s @ [Queried Gpu get_max_gpu], mon_pc := MonAdjustMemory\<rparr>
      | MonAdjustMemory \<Rightarrow>
          actuate Memory (max_memory_bytes s)
            (adjust_memory_limit (proc s) (max_memory_bytes s) (host s)) MonAdjustCpu s
      | MonAdjustCpu \<Rightarrow>
          actuate Cpu (max_cpu_percent s)
            (adjust_cpu_limit (proc s) (max_cpu_percent s) (host s)) MonAdjustGpu s
      | MonAdjustGpu \<Rightarrow>
          actuate Gpu (max_gpu_percent s)
            (adjust_gpu_limit (proc s) (max_gpu_percent s) (host s)) MonSleep s
      | MonSleep \<Rightarrow> s\<lparr>trace := trace s @ [Slept 1], mon_pc := MonCheck\<rparr>
      | MonStopped \<Rightarrow> s
      | MonRaised e \<Rightarrow> s)"

text \<open>
  The child exits on its own, with any code, once it runs. It stays in the process table
  until \<^verbatim>\<open>proc.wait()\<close> reaps it.
\<close>

definition child_exit :: "int \<Rightarrow> sys \<Rightarrow> sys" where
  "child_exit code s = (case child s of Running \<Rightarrow> s\<lparr>child := Exited code\<rparr> | _ \<Rightarrow> s)"

datatype action = Main | Monitor | ChildExit int

fun step :: "action \<Rightarrow> sys \<Rightarrow> sys" where
  "step Main s = run_step s"
| "step Monitor s = monitor_memory_and_cpu_step s"
| "step (ChildExit code) s = child_exit code s"

fun exec :: "action list \<Rightarrow> sys \<Rightarrow> sys" where
  "exec [] s = s"
| "exec (a # as) s = exec as (step a s)"



fun cycle_rest :: "mon_pc \<Rightarrow> nat" where
  "cycle_rest MonGetMemory = 7"
| "cycle_rest MonGetCpu = 6"
| "cycle_rest MonGetGpu = 5"
| "cycle_rest MonAdjustMemory = 4"
| "cycle_rest MonAdjustCpu = 3"
| "cycle_rest MonAdjustGpu = 2"
| "cycle_rest MonSleep = 1"
| "cycle_rest pc = 0"


subsection \<open>Invariants of a run\<close>

text \<open>
  What holds at each statement of \<^verbatim>\<open>run\<close>: the monitor exists from the start of
  the thread on, the event is unset up to \<^verbatim>\<open>process_finished.set()\<close> and set
  after it, and past \<^verbatim>\<open>proc.wait()\<close> the child has exited with the code in
  \<^verbatim>\<open>returncode\<close>.
\<close>

definition exited_with_returncode :: "sys \<Rightarrow> bool" where
  "exited_with_returncode s = (case child s of Exited c \<Rightarrow> returncode s = Some c | _ \<Rightarrow> False)"

definition run_inv :: "sys \<Rightarrow> bool" where
  "run_inv s =
     ((mon_pc s = MonStopped \<longrightarrow> process_finished s) \<and>
      (case main_pc s of
         MainPopen \<Rightarrow>
           mon_pc s = MonNotStarted \<and> child s = NotSpawned \<and> \<not> process_finished s
       | MainEvent \<Rightarrow>
           mon_pc s = MonNotStarted \<and> child s \<noteq> NotSpawned \<and> \<not> process_finished s
       | MainThread \<Rightarrow>
           mon_pc s = MonNotStarted \<and> child s \<noteq> NotSpawned \<and> \<not> process_finished s
       | MainWait \<Rightarrow>
           mon_pc s \<noteq> MonNotStarted \<and> child s \<noteq> NotSpawned \<and> \<not> process_finished s
       | MainSet \<Rightarrow>
           mon_pc s \<noteq> MonNotStarted \<and> exited_with_returncode s \<and> \<not> process_finished s
       | MainReturn \<Rightarrow>
           mon_pc s \<noteq> MonNotStarted \<and> exited_with_returncode s \<and> process_finished s
       | MainReturned v \<Rightarrow>
           v = PyNone \<and> mon_pc s \<noteq> MonNotStarted \<and> exited_with_returncode s
           \<and> process_finished s
       | MainRaised e \<Rightarrow>
           mon_pc s = MonNotStarted \<and> child s = NotSpawned \<and> \<not> process_finished s))"




subsection \<open>A concrete host\<close>

text \<open>
  An unprivileged supervisor on eight logical CPUs with no address-space limit, a command
  \<^verbatim>\<open>job\<close> that can be executed and a file \<^verbatim>\<open>locked\<close> that cannot.
  \<open>spawn_and_start\<close> is the schedule that takes \<^verbatim>\<open>run\<close> up to
  \<^verbatim>\<open>proc.wait()\<close>, and \<open>supervise code\<close> a whole run in which the monitor
  never gets a turn and the child exits with \<open>code\<close>. \<open>demo_host_with n\<close> is the
  host with one process, pid 100, at nice value \<open>n\<close>.
\<close>

definition demo_host :: os_state where
  "demo_host =
     \<lparr>rlimit_as = (- 1, - 1), privileged = False, cpu_count = Some 8, affinity_api = True,
      procs = Map.empty, inherit = \<lparr>affinity = {0 ..< 8}, niceness = 0\<rparr>,
      executables = [''job'' \<mapsto> True, ''locked'' \<mapsto> False], next_pid = 100\<rparr>"

definition demo_host_with :: "int \<Rightarrow> os_state" where
  "demo_host_with n = demo_host\<lparr>procs := [100 \<mapsto> \<lparr>affinity = {0 ..< 8}, niceness = n\<rparr>]\<rparr>"

definition spawn_and_start :: "action list" where
  "spawn_and_start = [Main, Main, Main]"

definition supervise :: "int \<Rightarrow> action list" where
  "supervise code = spawn_and_start @ [ChildExit code, Main, Main, Main]"


section \<open>Properties of the actuators\<close>

subsection \<open>Address-space limits\<close>

lemma sint64_range: "- (2 ^ 63) \<le> sint (h::64 word) \<and> sint h < 2 ^ 63"
  using sint_ge [of h] sint_lt [of h] by simp

lemma py2rlimit_rlimit2py: "py2rlimit (rlimit2py h) = Inr h"
  using sint64_range [of h] by (simp add: py2rlimit_def rlimit2py_def)

lemma word_of_int_not_above:
  assumes "0 \<le> B" "B \<le> sint (h::64 word)"
  shows "\<not> h < (word_of_int B :: 64 word)"
proof -
  have r: "sint h < 2 ^ 63" using sint64_range [of h] by simp
  have "h < word_of_int B \<longleftrightarrow> sint h mod 2 ^ 64 < B mod 2 ^ 64"
    using wi_less [of "sint h" B, where ?'a = 64] by simp
  moreover have "sint h mod 2 ^ 64 = sint h" using assms r by simp
  moreover have "B mod 2 ^ 64 = B" using assms r by simp
  ultimately show ?thesis using assms by simp
qed

lemma sint_word_of_int_small:
  assumes "- (2 ^ 63) \<le> B" "B < 2 ^ 63"
  shows "sint (word_of_int B :: 64 word) = B"
  using assms by (simp add: sint_sbintrunc' signed_take_bit_int_eq_self)

lemma unlimited_not_below:
  assumes "sint (h::64 word) = - 1"
  shows "\<not> h < w"
proof -
  have "h = word_of_int (sint h)" by simp
  then have "h = - 1" unfolding assms by simp
  then show ?thesis by simp
qed

lemma setrlimit_soft:
  assumes "0 \<le> B" "B < 2 ^ 63" "\<not> snd (rlimit_as s) < (word_of_int B :: 64 word)"
  shows "setrlimit (B, rlimit2py (snd (rlimit_as s))) s
           = (None, s\<lparr>rlimit_as := (word_of_int B, snd (rlimit_as s))\<rparr>)"
proof -
  have c: "py2rlimit B = Inr (word_of_int B)" using assms(1,2) by (simp add: py2rlimit_def)
  show ?thesis using assms(3) by (simp add: setrlimit_def c py2rlimit_rlimit2py)
qed

text \<open>
  C5. For every ceiling \<open>B\<close> from 0 up to the hard limit that
  \<^verbatim>\<open>getrlimit\<close> reports (and, when it reports no hard limit, for every
  \<open>B\<close> a C long can hold), \<open>adjust_memory_limit\<close> returns normally, the soft limit
  of the calling process is exactly \<open>B\<close> afterwards, and nothing else of the host
  changes: the hard limit is the one that was read.
\<close>

theorem adjust_memory_limit_sets_soft_only:
  assumes "getrlimit s = (soft, hard)" and "0 \<le> B"
    and "B \<le> hard \<or> (hard = - 1 \<and> B < 2 ^ 63)"
  shows "adjust_memory_limit process B s
           = (None, s\<lparr>rlimit_as := (word_of_int B, snd (rlimit_as s))\<rparr>)
         \<and> getrlimit (snd (adjust_memory_limit process B s)) = (B, hard)"
proof -
  have hard: "hard = rlimit2py (snd (rlimit_as s))"
    using assms(1) by (simp add: getrlimit_def)
  have r: "B < 2 ^ 63"
    using assms(3) sint64_range [of "snd (rlimit_as s)"] by (auto simp: hard rlimit2py_def)
  have n: "\<not> snd (rlimit_as s) < (word_of_int B :: 64 word)"
    using assms(2,3) word_of_int_not_above [of B "snd (rlimit_as s)"]
      unlimited_not_below [of "snd (rlimit_as s)" "word_of_int B"]
    by (auto simp: hard rlimit2py_def)
  have e: "adjust_memory_limit process B s
             = (None, s\<lparr>rlimit_as := (word_of_int B, snd (rlimit_as s))\<rparr>)"
    using assms(1) setrlimit_soft [OF assms(2) r n] by (simp add: adjust_memory_limit_def hard)
  have "getrlimit (s\<lparr>rlimit_as := (word_of_int B, snd (rlimit_as s))\<rparr>) = (B, hard)"
    using assms(2) r by (simp add: getrlimit_def hard rlimit2py_def sint_word_of_int_small)
  with e show ?thesis by simp
qed

theorem adjust_memory_limit_sets_soft_only_witness:
  "getrlimit (demo_host\<lparr>rlimit_as := (- 1, 2 ^ 31)\<rparr>) = (- 1, 2 ^ 31)
   \<and> (0::int) \<le> 2 ^ 30 \<and> (2 ^ 30 :: int) \<le> 2 ^ 31
   \<and> adjust_memory_limit 100 (2 ^ 30) (demo_host\<lparr>rlimit_as := (- 1, 2 ^ 31)\<rparr>)
       = (None, demo_host\<lparr>rlimit_as := (2 ^ 30, 2 ^ 31)\<rparr>)
   \<and> getrlimit (snd (adjust_memory_limit 100 (2 ^ 30) (demo_host\<lparr>rlimit_as := (- 1, 2 ^ 31)\<rparr>)))
       = (2 ^ 30, 2 ^ 31)"
proof -
  have g: "getrlimit (demo_host\<lparr>rlimit_as := (- 1, 2 ^ 31)\<rparr>) = (- 1, 2 ^ 31)"
    by (simp add: getrlimit_def rlimit2py_def)
  show ?thesis
    using g adjust_memory_limit_sets_soft_only
      [of "demo_host\<lparr>rlimit_as := (- 1, 2 ^ 31)\<rparr>" "- 1" "2 ^ 31" "2 ^ 30" 100]
    by (simp add: getrlimit_def rlimit2py_def)
qed

subsection \<open>Cores and priority\<close>

lemma py_int_truediv_nonneg:
  "0 \<le> a \<Longrightarrow> 0 < b \<Longrightarrow> py_int (py_truediv a b) = a div b"
  by (simp add: py_int_def py_truediv_def floor_divide_of_int_eq)

lemma num_cores_floor: "0 \<le> N \<Longrightarrow> 0 \<le> p \<Longrightarrow> num_cores N p = max 1 (N * p div 100)"
  by (simp add: num_cores_def py_int_truediv_nonneg)

text \<open>
  The integer part does not depend on how the quotient is rounded: any value within
  \<open>1/100\<close> of the exact quotient by 100, and equal to it when it is an integer, truncates
  to the same number. A correctly rounded binary64 quotient is such a value as long as its
  rounding error stays below \<open>1/100\<close>.
\<close>

lemma py_int_rounding_stable:
  fixes y :: rat
  assumes "0 \<le> k" and "\<bar>y - py_truediv k 100\<bar> < 1 / 100"
    and "100 dvd k \<longrightarrow> y = py_truediv k 100"
  shows "py_int y = k div 100"
proof (cases "100 dvd k")
  case True
  then have "y = py_truediv k 100" using assms(3) by simp
  then show ?thesis using assms(1) by (simp add: py_int_truediv_nonneg)
next
  case False
  then have r: "1 \<le> k mod 100" "k mod 100 \<le> 99"
    using pos_mod_bound [of 100 k] pos_mod_sign [of 100 k] by (auto simp: dvd_eq_mod_eq_0)
  have "k = 100 * (k div 100) + k mod 100" by simp
  then have "(of_int k :: rat) = 100 * of_int (k div 100) + of_int (k mod 100)"
    by (metis of_int_add of_int_mult of_int_numeral)
  then have q: "py_truediv k 100 = of_int (k div 100) + of_int (k mod 100) / 100"
    by (simp add: py_truediv_def add_divide_distrib)
  define z :: rat where "z = of_int (k mod 100) / 100"
  have lo: "1 / 100 \<le> z" using r(1) by (simp add: z_def)
  have hi: "z \<le> 99 / 100" using r(2) by (simp add: z_def)
  have "\<bar>y - (of_int (k div 100) + z)\<bar> < 1 / 100"
    using assms(2) unfolding q z_def .
  then have "y - (of_int (k div 100) + z) < 1 / 100" "- (1 / 100) < y - (of_int (k div 100) + z)"
    by (simp_all only: abs_less_iff minus_diff_eq) linarith+
  then have b: "of_int (k div 100) < y" "y < of_int (k div 100) + 1"
    using lo hi by linarith+
  have d: "0 \<le> k div 100" using assms(1) by (simp add: pos_imp_zdiv_nonneg_iff)
  then have "(0::rat) \<le> of_int (k div 100)" by simp
  then have "0 \<le> y" using b(1) by linarith
  moreover have "\<lfloor>y\<rfloor> = k div 100" using b by (intro floor_unique) simp_all
  ultimately show ?thesis by (simp add: py_int_def)
qed

lemma num_cores_ge1: "1 \<le> num_cores N p"
  by (simp add: num_cores_def)

lemma num_cores_le:
  assumes "1 \<le> N" "0 \<le> p" "p \<le> 100" shows "num_cores N p \<le> N"
proof -
  have "N * p \<le> N * 100" using assms by (simp add: mult_left_mono)
  then have "N * p div 100 \<le> N * 100 div 100" by (rule zdiv_mono1) simp
  then show ?thesis using assms by (simp add: num_cores_floor)
qed

lemma set_py_range: "set (py_range n) = {0 ..< n}"
  by (auto simp: py_range_def)

lemma py_range_nonempty: "1 \<le> n \<Longrightarrow> py_range n \<noteq> []"
  by (simp add: py_range_def upto.simps)

lemma cpu_affinity_prefix:
  assumes "affinity_api s" "procs s pid = Some pr" "cpu_count s = Some N" "1 \<le> n" "n \<le> N"
  shows "cpu_affinity pid (py_range n) s
           = (None, s\<lparr>procs := (procs s)(pid \<mapsto> pr\<lparr>affinity := {0 ..< n}\<rparr>)\<rparr>)"
proof -
  have ne: "py_range n \<noteq> []" using assms(4) by (rule py_range_nonempty)
  have ok: "list_all (\<lambda>c. 0 \<le> c \<and> c < N) (py_range n)"
    using assms(5) by (auto simp: list_all_iff set_py_range)
  show ?thesis using assms(1,2,3) ne ok by (simp add: cpu_affinity_def set_py_range)
qed


lemma adjust_cpu_limit_then_nice:
  assumes "cpu_count s = Some N" and "1 \<le> N" and "0 \<le> p" and "p \<le> 100"
    and "procs s pid = Some pr" and "affinity_api s"
  shows "adjust_cpu_limit pid p s
           = nice pid 10 (s\<lparr>procs := (procs s)(pid \<mapsto> pr\<lparr>affinity := {0 ..< num_cores N p}\<rparr>)\<rparr>)"
proof -
  have "cpu_affinity pid (py_range (num_cores N p)) s
          = (None, s\<lparr>procs := (procs s)(pid \<mapsto> pr\<lparr>affinity := {0 ..< num_cores N p}\<rparr>)\<rparr>)"
    using assms(6,5,1) num_cores_ge1 num_cores_le [OF assms(2,3,4)] by (rule cpu_affinity_prefix)
  then show ?thesis
    using assms(1,5) by (simp add: adjust_cpu_limit_def psutil_Process_def)
qed



text \<open>The three examples of the specification: 8 cores at 50 percent, 8 at 1, 4 at 100.\<close>

lemma num_cores_examples: "num_cores 8 50 = 4 \<and> num_cores 8 1 = 1 \<and> num_cores 4 100 = 4"
  by (simp add: num_cores_floor)

text \<open>
  C9, as stated, fails: a process already at nice value 10 (the state every cycle after the
  first finds) keeps its priority, and under a privileged supervisor a process at nice
  value 15 has its priority raised to 10.
\<close>

theorem nice_not_relative_counterexample:
  "map_option niceness (procs (demo_host_with 10) 100) = Some 10
   \<and> fst (adjust_cpu_limit 100 50 (demo_host_with 10)) = None
   \<and> map_option niceness (procs (snd (adjust_cpu_limit 100 50 (demo_host_with 10))) 100) = Some 10
   \<and> map_option niceness (procs (demo_host_with 15 \<lparr>privileged := True\<rparr>) 100) = Some 15
   \<and> map_option niceness
        (procs (snd (adjust_cpu_limit 100 50 (demo_host_with 15 \<lparr>privileged := True\<rparr>))) 100)
       = Some 10"
  by (simp add: adjust_cpu_limit_def psutil_Process_def cpu_affinity_def nice_def Let_def
      demo_host_with_def demo_host_def num_cores_floor py_range_def upto.simps)

text \<open>
  C9, amended. After the core restriction succeeded, the CPU Actuator requests the absolute
  nice value 10: the nice value is exactly 10 afterwards when it was at most 10 before or
  the supervisor is privileged; otherwise the call raises \<^verbatim>\<open>AccessDenied\<close> and
  the nice value stays.
\<close>

theorem adjust_cpu_limit_nice_absolute:
  assumes "cpu_count s = Some N" and "1 \<le> N" and "0 \<le> p" and "p \<le> 100"
    and "procs s pid = Some pr" and "affinity_api s"
  shows "(niceness pr \<le> 10 \<or> privileged s \<longrightarrow>
            fst (adjust_cpu_limit pid p s) = None
            \<and> map_option niceness (procs (snd (adjust_cpu_limit pid p s)) pid) = Some 10)
         \<and> (10 < niceness pr \<and> \<not> privileged s \<longrightarrow>
            fst (adjust_cpu_limit pid p s) = Some AccessDenied
            \<and> map_option niceness (procs (snd (adjust_cpu_limit pid p s)) pid)
                = Some (niceness pr))"
  unfolding adjust_cpu_limit_then_nice [OF assms] by (auto simp: nice_def Let_def)

theorem adjust_cpu_limit_nice_absolute_witness:
  "cpu_count (demo_host_with 0) = Some 8 \<and> (1::int) \<le> 8 \<and> (0::int) \<le> 50 \<and> (50::int) \<le> 100
   \<and> procs (demo_host_with 0) 100 = Some \<lparr>affinity = {0 ..< 8}, niceness = 0\<rparr>
   \<and> affinity_api (demo_host_with 0)
   \<and> niceness \<lparr>affinity = {0 ..< 8}, niceness = 0\<rparr> \<le> 10
   \<and> fst (adjust_cpu_limit 100 50 (demo_host_with 0)) = None
   \<and> map_option niceness (procs (snd (adjust_cpu_limit 100 50 (demo_host_with 0))) 100) = Some 10"
  using adjust_cpu_limit_nice_absolute
    [of "demo_host_with 0" 8 50 100 "\<lparr>affinity = {0 ..< 8}, niceness = 0\<rparr>"]
  by (simp add: demo_host_with_def demo_host_def)

text \<open>
  C10. Applying \<open>adjust_cpu_limit\<close> a second time with the same percentage gives the
  same outcome and the same host state as applying it once, and a call that returns
  normally leaves the nice value at the absolute value 10.
\<close>

theorem adjust_cpu_limit_idempotent:
  "adjust_cpu_limit pid v (snd (adjust_cpu_limit pid v s)) = adjust_cpu_limit pid v s
   \<and> (fst (adjust_cpu_limit pid v s) = None \<longrightarrow>
        map_option niceness (procs (snd (adjust_cpu_limit pid v s)) pid) = Some 10)"
  by (auto simp: adjust_cpu_limit_def psutil_Process_def cpu_affinity_def nice_def Let_def
      split: option.splits sum.splits prod.splits if_splits)

theorem adjust_cpu_limit_idempotent_witness:
  "adjust_cpu_limit 100 50 (snd (adjust_cpu_limit 100 50 (demo_host_with 0)))
     = adjust_cpu_limit 100 50 (demo_host_with 0)
   \<and> fst (adjust_cpu_limit 100 50 (demo_host_with 0)) = None
   \<and> map_option niceness (procs (snd (adjust_cpu_limit 100 50 (demo_host_with 0))) 100) = Some 10"
proof -
  have ok: "fst (adjust_cpu_limit 100 50 (demo_host_with 0)) = None"
    by (simp add: adjust_cpu_limit_def psutil_Process_def cpu_affinity_def nice_def Let_def
        demo_host_with_def demo_host_def num_cores_floor py_range_def upto.simps)
  show ?thesis
    using ok adjust_cpu_limit_idempotent [of 100 50 "demo_host_with 0"] by simp
qed

section \<open>Properties of a run\<close>

subsection \<open>The invariant of the Supervisor\<close>

lemma exec_append: "exec (xs @ ys) s = exec ys (exec xs s)"
  by (induction xs arbitrary: s) auto

lemma monitor_step_frame:
  "main_pc (monitor_memory_and_cpu_step s) = main_pc s
   \<and> child (monitor_memory_and_cpu_step s) = child s
   \<and> returncode (monitor_memory_and_cpu_step s) = returncode s
   \<and> process_finished (monitor_memory_and_cpu_step s) = process_finished s
   \<and> proc (monitor_memory_and_cpu_step s) = proc s
   \<and> argv (monitor_memory_and_cpu_step s) = argv s"
  by (simp add: monitor_memory_and_cpu_step_def actuate_def split: mon_pc.splits prod.splits option.splits)

lemma monitor_step_started:
  "(mon_pc (monitor_memory_and_cpu_step s) = MonNotStarted) = (mon_pc s = MonNotStarted)"
  by (simp add: monitor_memory_and_cpu_step_def actuate_def split: mon_pc.splits prod.splits option.splits)

lemma monitor_step_stopped:
  "mon_pc (monitor_memory_and_cpu_step s) = MonStopped \<Longrightarrow> mon_pc s = MonStopped \<or> process_finished s"
  by (simp add: monitor_memory_and_cpu_step_def actuate_def split: mon_pc.splits prod.splits option.splits if_splits)

lemma monitor_step_exited:
  "exited_with_returncode (monitor_memory_and_cpu_step s) = exited_with_returncode s"
  by (simp add: exited_with_returncode_def monitor_step_frame split: child_state.splits)

lemma run_inv_monitor: "run_inv s \<Longrightarrow> run_inv (monitor_memory_and_cpu_step s)"
  using monitor_step_stopped [of s]
  by (auto simp: run_inv_def monitor_step_frame monitor_step_started monitor_step_exited
      split: main_pc.splits)

lemma run_inv_child_exit: "run_inv s \<Longrightarrow> run_inv (child_exit code s)"
  by (auto simp: run_inv_def child_exit_def exited_with_returncode_def
      split: main_pc.splits child_state.splits)

lemma run_inv_run: "run_inv s \<Longrightarrow> run_inv (run_step s)"
  by (auto simp: run_inv_def run_step_def exited_with_returncode_def
      split: main_pc.splits child_state.splits prod.splits sum.splits)

lemma run_inv_step: "run_inv s \<Longrightarrow> run_inv (step a s)"
  by (cases a) (simp_all add: run_inv_monitor run_inv_child_exit run_inv_run)

lemma run_inv_exec: "run_inv s \<Longrightarrow> run_inv (exec sched s)"
  by (induction sched arbitrary: s) (simp_all add: run_inv_step)

lemma run_inv_init: "run_inv (init_sys h args)"
  by (simp add: run_inv_def init_sys_def)

lemma run_inv_reachable: "run_inv (exec sched (init_sys h args))"
  by (simp add: run_inv_exec run_inv_init)

subsection \<open>Spawn failure\<close>

lemmas actuator_defs =
  adjust_memory_limit_def adjust_cpu_limit_def adjust_gpu_limit_def getrlimit_def setrlimit_def
  rlimit2py_def py2rlimit_def psutil_Process_def cpu_affinity_def nice_def py_range_def
  num_cores_def py_truediv_def py_int_def get_max_memory_def get_max_cpu_def get_max_gpu_def

lemmas sys_defs =
  init_sys_def run_step_def monitor_memory_and_cpu_step_def actuate_def child_exit_def
  Popen_def halted_def exit_status_def spawn_and_start_def supervise_def

lemma Popen_failure: "fst (Popen args h) = Inl e \<Longrightarrow> Popen args h = (Inl e, h)"
  by (auto simp: Popen_def split: list.splits option.splits if_splits)

lemma Popen_failure_kinds:
  "fst (Popen args h) = Inl e \<Longrightarrow> e = IndexError \<or> e = FileNotFoundError \<or> e = PermissionError"
  by (auto simp: Popen_def split: list.splits option.splits if_splits)

lemma spawn_failure_step:
  assumes "Popen args h = (Inl e, h)"
  shows "step a (init_sys h args) = init_sys h args
         \<or> step a (init_sys h args) = (init_sys h args)\<lparr>main_pc := MainRaised e\<rparr>"
  using assms by (cases a) (simp_all add: sys_defs)

lemma spawn_failure_stuck:
  "step a ((init_sys h args)\<lparr>main_pc := MainRaised e\<rparr>) = (init_sys h args)\<lparr>main_pc := MainRaised e\<rparr>"
  by (cases a) (simp_all add: sys_defs)

lemma spawn_failure_stuck_exec:
  "exec sched ((init_sys h args)\<lparr>main_pc := MainRaised e\<rparr>) = (init_sys h args)\<lparr>main_pc := MainRaised e\<rparr>"
  by (induction sched) (simp_all add: spawn_failure_stuck)

lemma spawn_failure_exec:
  assumes "Popen args h = (Inl e, h)"
  shows "exec sched (init_sys h args) = init_sys h args
         \<or> exec sched (init_sys h args) = (init_sys h args)\<lparr>main_pc := MainRaised e\<rparr>"
proof (induction sched)
  case Nil
  then show ?case by simp
next
  case (Cons a sched)
  from spawn_failure_step [OF assms, of a] show ?case
  proof
    assume "step a (init_sys h args) = init_sys h args"
    with Cons show ?thesis by simp
  next
    assume "step a (init_sys h args) = (init_sys h args)\<lparr>main_pc := MainRaised e\<rparr>"
    then show ?thesis by (simp add: spawn_failure_stuck_exec)
  qed
qed

text \<open>
  C8. When the child cannot be created (\<^verbatim>\<open>Popen\<close> raises: no such file, no
  permission, or no command at all), the first step of \<^verbatim>\<open>run\<close> ends it with that
  exception and the program exits with status 1; in every schedule the Monitor Loop is
  never started, its trace stays empty, no child exists and the host is untouched.
\<close>

theorem spawn_failure_no_monitor:
  assumes "fst (Popen args h) = Inl e"
  shows "main_pc (step Main (init_sys h args)) = MainRaised e
         \<and> exit_status (step Main (init_sys h args)) = Some 1
         \<and> (e = IndexError \<or> e = FileNotFoundError \<or> e = PermissionError)
         \<and> mon_pc (exec sched (init_sys h args)) = MonNotStarted
         \<and> trace (exec sched (init_sys h args)) = []
         \<and> child (exec sched (init_sys h args)) = NotSpawned
         \<and> host (exec sched (init_sys h args)) = h
         \<and> (main_pc (exec sched (init_sys h args)) = MainPopen
             \<or> main_pc (exec sched (init_sys h args)) = MainRaised e)"
proof -
  have p: "Popen args h = (Inl e, h)" using assms by (rule Popen_failure)
  have a: "main_pc (step Main (init_sys h args)) = MainRaised e
           \<and> exit_status (step Main (init_sys h args)) = Some 1"
    using p by (simp add: sys_defs)
  have k: "e = IndexError \<or> e = FileNotFoundError \<or> e = PermissionError"
    using assms by (rule Popen_failure_kinds)
  from spawn_failure_exec [OF p, of sched] a k show ?thesis
    by (auto simp: init_sys_def)
qed

theorem spawn_failure_no_monitor_witness:
  "fst (Popen [''locked''] demo_host) = Inl PermissionError
   \<and> main_pc (step Main (init_sys demo_host [''locked''])) = MainRaised PermissionError
   \<and> exit_status (step Main (init_sys demo_host [''locked''])) = Some 1
   \<and> mon_pc (exec (supervise 0 @ [Monitor, Monitor]) (init_sys demo_host [''locked''])) = MonNotStarted
   \<and> trace (exec (supervise 0 @ [Monitor, Monitor]) (init_sys demo_host [''locked''])) = []
   \<and> main_pc (exec (supervise 0 @ [Monitor, Monitor]) (init_sys demo_host [''locked'']))
       = MainRaised PermissionError"
proof -
  have f: "fst (Popen [''locked''] demo_host) = Inl PermissionError"
    by (simp add: Popen_def demo_host_def)
  have m: "main_pc (exec (supervise 0 @ [Monitor, Monitor]) (init_sys demo_host [''locked'']))
             \<noteq> MainPopen"
    by (simp add: sys_defs demo_host_def)
  show ?thesis
    using f m spawn_failure_no_monitor
      [of "[''locked'']" demo_host PermissionError "supervise 0 @ [Monitor, Monitor]"]
    by simp
qed

subsection \<open>The exit code of the child\<close>

lemma supervise_run:
  assumes "Popen args h = (Inr pid, h')"
  shows "exec (supervise code) (init_sys h args)
           = (init_sys h args)\<lparr>host := h'\<lparr>procs := (procs h')(pid := None)\<rparr>, proc := pid,
                child := Exited code, process_finished := True, mon_pc := MonCheck,
                returncode := Some code, main_pc := MainReturned PyNone\<rparr>"
  using assms by (simp add: sys_defs)

text \<open>
  C1, as stated, fails: when the child exits with code 3, \<^verbatim>\<open>run\<close> returns
  \<^verbatim>\<open>None\<close>, not 3, and the program exits with status 0.
\<close>

theorem run_exit_code_counterexample:
  "child (exec (supervise 3) (init_sys demo_host [''job''])) = Exited 3
   \<and> returncode (exec (supervise 3) (init_sys demo_host [''job''])) = Some 3
   \<and> main_pc (exec (supervise 3) (init_sys demo_host [''job''])) = MainReturned PyNone
   \<and> main_pc (exec (supervise 3) (init_sys demo_host [''job''])) \<noteq> MainReturned (PyInt 3)
   \<and> exit_status (exec (supervise 3) (init_sys demo_host [''job''])) = Some 0
   \<and> exit_status (exec (supervise 3) (init_sys demo_host [''job''])) \<noteq> Some 3"
  by (simp add: sys_defs demo_host_def)

text \<open>
  C1, amended. For every command line whose child spawns and every exit code of the child,
  the run in which the Supervisor waits for the child reaches the end of
  \<^verbatim>\<open>run\<close>: it returns \<^verbatim>\<open>None\<close> with the Termination Signal set, and the
  program exits with status 0. In every schedule in which \<^verbatim>\<open>run\<close> has returned,
  it returned \<^verbatim>\<open>None\<close>, the status is 0, the signal is set, and the child has
  exited with the code that \<^verbatim>\<open>proc.returncode\<close> holds and nothing reads.
\<close>

theorem run_returns_None:
  assumes "fst (Popen args h) = Inr pid"
  shows "main_pc (exec (supervise code) (init_sys h args)) = MainReturned PyNone
         \<and> exit_status (exec (supervise code) (init_sys h args)) = Some 0
         \<and> child (exec (supervise code) (init_sys h args)) = Exited code
         \<and> process_finished (exec (supervise code) (init_sys h args))
         \<and> (main_pc (exec sched (init_sys h args)) = MainReturned v \<longrightarrow>
              v = PyNone
              \<and> exit_status (exec sched (init_sys h args)) = Some 0
              \<and> process_finished (exec sched (init_sys h args))
              \<and> exited_with_returncode (exec sched (init_sys h args)))"
proof -
  obtain h' where p: "Popen args h = (Inr pid, h')"
    using assms by (cases "Popen args h") auto
  have a: "main_pc (exec (supervise code) (init_sys h args)) = MainReturned PyNone
           \<and> exit_status (exec (supervise code) (init_sys h args)) = Some 0
           \<and> child (exec (supervise code) (init_sys h args)) = Exited code
           \<and> process_finished (exec (supervise code) (init_sys h args))"
    unfolding supervise_run [OF p] by (simp add: exit_status_def)
  have b: "main_pc (exec sched (init_sys h args)) = MainReturned v \<longrightarrow>
              v = PyNone
              \<and> exit_status (exec sched (init_sys h args)) = Some 0
              \<and> process_finished (exec sched (init_sys h args))
              \<and> exited_with_returncode (exec sched (init_sys h args))"
    using run_inv_reachable [of sched h args] by (auto simp: run_inv_def exit_status_def)
  from a b show ?thesis by simp
qed

theorem run_returns_None_witness:
  "fst (Popen [''job''] demo_host) = Inr 100
   \<and> main_pc (exec (supervise 3) (init_sys demo_host [''job''])) = MainReturned PyNone
   \<and> exit_status (exec (supervise 3) (init_sys demo_host [''job''])) = Some 0
   \<and> child (exec (supervise 3) (init_sys demo_host [''job''])) = Exited 3
   \<and> process_finished (exec (supervise 3) (init_sys demo_host [''job'']))
   \<and> exited_with_returncode (exec (supervise 3) (init_sys demo_host [''job'']))"
proof -
  have f: "fst (Popen [''job''] demo_host) = Inr 100"
    by (simp add: Popen_def demo_host_def)
  show ?thesis
    using f run_returns_None [of "[''job'']" demo_host 100 3 "supervise 3" PyNone]
    by simp
qed

subsection \<open>The Termination Signal and the end of the loop\<close>

lemma run_step_monitor_frame:
  "run_inv s \<Longrightarrow> mon_pc s \<noteq> MonNotStarted \<Longrightarrow>
     mon_pc (run_step s) = mon_pc s \<and> trace (run_step s) = trace s"
  by (auto simp: run_inv_def run_step_def split: main_pc.splits child_state.splits prod.splits sum.splits)

lemma child_exit_frame:
  "mon_pc (child_exit code s) = mon_pc s \<and> trace (child_exit code s) = trace s
   \<and> process_finished (child_exit code s) = process_finished s
   \<and> main_pc (child_exit code s) = main_pc s"
  by (simp add: child_exit_def split: child_state.splits)

lemma monitor_step_final:
  "mon_pc s = MonStopped \<or> mon_pc s = MonRaised e \<Longrightarrow> monitor_memory_and_cpu_step s = s"
  by (auto simp: monitor_memory_and_cpu_step_def)

lemma final_step:
  assumes "run_inv s" and "mon_pc s = MonStopped \<or> mon_pc s = MonRaised e"
  shows "mon_pc (step a s) = mon_pc s \<and> trace (step a s) = trace s"
proof (cases a)
  case Main
  then show ?thesis using assms run_step_monitor_frame [of s] by auto
next
  case Monitor
  then show ?thesis using assms(2) monitor_step_final [of s e] by simp
next
  case (ChildExit code)
  then show ?thesis by (simp add: child_exit_frame)
qed

lemma final_exec:
  assumes "run_inv s" and "mon_pc s = MonStopped \<or> mon_pc s = MonRaised e"
  shows "mon_pc (exec sched s) = mon_pc s \<and> trace (exec sched s) = trace s"
  using assms
proof (induction sched arbitrary: s)
  case Nil
  then show ?case by simp
next
  case (Cons a sched)
  have f: "mon_pc (step a s) = mon_pc s \<and> trace (step a s) = trace s"
    using Cons.prems by (rule final_step)
  have "mon_pc (exec sched (step a s)) = mon_pc (step a s)
        \<and> trace (exec sched (step a s)) = trace (step a s)"
    using Cons.prems f by (intro Cons.IH) (simp_all add: run_inv_step)
  with f show ?case by simp
qed

lemma flag_set_only_by_run:
  "\<not> process_finished s \<Longrightarrow> process_finished (step a s) \<Longrightarrow> a = Main \<and> main_pc s = MainSet"
  by (cases a)
     (auto simp: monitor_step_frame child_exit_frame run_step_def
        split: main_pc.splits child_state.splits prod.splits sum.splits)

lemma flag_stays_step: "run_inv s \<Longrightarrow> process_finished s \<Longrightarrow> process_finished (step a s)"
  by (cases a)
     (auto simp: monitor_step_frame child_exit_frame run_step_def run_inv_def
        split: main_pc.splits child_state.splits prod.splits sum.splits)

lemma flag_stays_exec: "run_inv s \<Longrightarrow> process_finished s \<Longrightarrow> process_finished (exec sched s)"
  by (induction sched arbitrary: s) (simp_all add: run_inv_step flag_stays_step)

lemma monitor_step_rest:
  "process_finished s \<Longrightarrow>
     length (trace (monitor_memory_and_cpu_step s)) + cycle_rest (mon_pc (monitor_memory_and_cpu_step s))
       \<le> length (trace s) + cycle_rest (mon_pc s)"
  by (simp add: monitor_memory_and_cpu_step_def actuate_def split: mon_pc.splits prod.splits option.splits)

lemma rest_step:
  assumes "run_inv s" and "process_finished s"
  shows "length (trace (step a s)) + cycle_rest (mon_pc (step a s))
           \<le> length (trace s) + cycle_rest (mon_pc s)"
proof (cases a)
  case Main
  have "mon_pc s \<noteq> MonNotStarted"
    using assms by (auto simp: run_inv_def split: main_pc.splits)
  then show ?thesis using Main assms(1) run_step_monitor_frame [of s] by simp
next
  case Monitor
  then show ?thesis using assms(2) monitor_step_rest [of s] by simp
next
  case (ChildExit code)
  then show ?thesis by (simp add: child_exit_frame)
qed

lemma rest_exec:
  assumes "run_inv s" and "process_finished s"
  shows "length (trace (exec sched s)) + cycle_rest (mon_pc (exec sched s))
           \<le> length (trace s) + cycle_rest (mon_pc s)"
  using assms
proof (induction sched arbitrary: s)
  case Nil
  then show ?case by simp
next
  case (Cons a sched)
  have "length (trace (exec sched (step a s))) + cycle_rest (mon_pc (exec sched (step a s)))
          \<le> length (trace (step a s)) + cycle_rest (mon_pc (step a s))"
    using Cons.prems by (intro Cons.IH) (simp_all add: run_inv_step flag_stays_step)
  also have "\<dots> \<le> length (trace s) + cycle_rest (mon_pc s)"
    using Cons.prems by (rule rest_step)
  finally show ?case by simp
qed

lemma flag_set_past_wait:
  "run_inv s \<Longrightarrow> process_finished s \<Longrightarrow>
     exited_with_returncode s \<and> (main_pc s = MainReturn \<or> main_pc s = MainReturned PyNone)"
  by (auto simp: run_inv_def split: main_pc.splits)

text \<open>
  C4. In every state \<open>s\<close> a run can reach: once the Termination Signal is set it stays
  set in every continuation, the child has exited and \<^verbatim>\<open>run\<close> is past
  \<^verbatim>\<open>process_finished.set()\<close>, and the monitor emits no more events than the
  cycle it is in still has (none when it is at the check); the only step that sets the
  signal is \<^verbatim>\<open>process_finished.set()\<close> of the Supervisor, taken after the child
  exited; and a monitor that observed the signal set has stopped for good, with the signal
  set, and adds nothing to the trace.
\<close>

theorem termination_signal_monotone:
  assumes "s = exec pre (init_sys h args)"
  shows "(process_finished s \<longrightarrow>
            process_finished (exec post s)
            \<and> exited_with_returncode s
            \<and> (main_pc s = MainReturn \<or> main_pc s = MainReturned PyNone)
            \<and> length (trace (exec post s)) \<le> length (trace s) + cycle_rest (mon_pc s))
         \<and> (\<not> process_finished s \<and> process_finished (step a s) \<longrightarrow>
            a = Main \<and> main_pc s = MainSet \<and> exited_with_returncode s)
         \<and> (mon_pc s = MonStopped \<longrightarrow>
            process_finished s \<and> mon_pc (exec post s) = MonStopped
            \<and> trace (exec post s) = trace s)"
proof -
  have inv: "run_inv s" unfolding assms by (rule run_inv_reachable)
  have one: "process_finished s \<longrightarrow>
            process_finished (exec post s)
            \<and> exited_with_returncode s
            \<and> (main_pc s = MainReturn \<or> main_pc s = MainReturned PyNone)
            \<and> length (trace (exec post s)) \<le> length (trace s) + cycle_rest (mon_pc s)"
  proof
    assume f: "process_finished s"
    have "length (trace (exec post s)) + cycle_rest (mon_pc (exec post s))
            \<le> length (trace s) + cycle_rest (mon_pc s)"
      using inv f by (rule rest_exec)
    then have "length (trace (exec post s)) \<le> length (trace s) + cycle_rest (mon_pc s)"
      by simp
    then show "process_finished (exec post s)
            \<and> exited_with_returncode s
            \<and> (main_pc s = MainReturn \<or> main_pc s = MainReturned PyNone)
            \<and> length (trace (exec post s)) \<le> length (trace s) + cycle_rest (mon_pc s)"
      using flag_stays_exec [OF inv f, of post] flag_set_past_wait [OF inv f] by simp
  qed
  have two: "\<not> process_finished s \<and> process_finished (step a s) \<longrightarrow>
            a = Main \<and> main_pc s = MainSet \<and> exited_with_returncode s"
  proof
    assume c: "\<not> process_finished s \<and> process_finished (step a s)"
    then have m: "a = Main \<and> main_pc s = MainSet" using flag_set_only_by_run [of s a] by simp
    then have "exited_with_returncode s" using inv by (simp add: run_inv_def)
    with m show "a = Main \<and> main_pc s = MainSet \<and> exited_with_returncode s" by simp
  qed
  have three: "mon_pc s = MonStopped \<longrightarrow>
            process_finished s \<and> mon_pc (exec post s) = MonStopped
            \<and> trace (exec post s) = trace s"
  proof
    assume st: "mon_pc s = MonStopped"
    then have "process_finished s" using inv by (simp add: run_inv_def)
    moreover have "mon_pc (exec post s) = mon_pc s \<and> trace (exec post s) = trace s"
      using inv st final_exec [where s = s and sched = post] by simp
    ultimately show "process_finished s \<and> mon_pc (exec post s) = MonStopped
            \<and> trace (exec post s) = trace s"
      using st by simp
  qed
  from one two three show ?thesis by simp
qed

lemma eval_in_flight:
  "exec (spawn_and_start @ [Monitor, Monitor, ChildExit 3, Main, Main]) (init_sys demo_host [''job''])
     = (init_sys demo_host [''job''])
         \<lparr>host := demo_host\<lparr>procs := Map.empty, next_pid := 101\<rparr>, proc := 100,
           child := Exited 3, process_finished := True, mon_pc := MonGetCpu,
           max_memory_bytes := 1073741824, trace := [Queried Memory 1073741824],
           returncode := Some 3, main_pc := MainReturn\<rparr>"
  by (simp add: sys_defs demo_host_def get_max_memory_def)

theorem termination_signal_monotone_witness:
  "process_finished (exec (spawn_and_start @ [Monitor, Monitor, ChildExit 3, Main, Main])
      (init_sys demo_host [''job'']))
   \<and> process_finished (exec [Monitor, Monitor, Main, Monitor]
        (exec (spawn_and_start @ [Monitor, Monitor, ChildExit 3, Main, Main])
          (init_sys demo_host [''job''])))
   \<and> length (trace (exec [Monitor, Monitor, Main, Monitor]
        (exec (spawn_and_start @ [Monitor, Monitor, ChildExit 3, Main, Main])
          (init_sys demo_host [''job''])))) \<le> 1 + 6
   \<and> \<not> process_finished (exec (spawn_and_start @ [ChildExit 3, Main]) (init_sys demo_host [''job'']))
   \<and> process_finished (step Main
        (exec (spawn_and_start @ [ChildExit 3, Main]) (init_sys demo_host [''job''])))
   \<and> main_pc (exec (spawn_and_start @ [ChildExit 3, Main]) (init_sys demo_host [''job''])) = MainSet
   \<and> mon_pc (exec (spawn_and_start @ [ChildExit 3, Main, Main, Monitor])
        (init_sys demo_host [''job''])) = MonStopped
   \<and> mon_pc (exec [Monitor, Main, Monitor]
        (exec (spawn_and_start @ [ChildExit 3, Main, Main, Monitor])
          (init_sys demo_host [''job'']))) = MonStopped
   \<and> trace (exec [Monitor, Main, Monitor]
        (exec (spawn_and_start @ [ChildExit 3, Main, Main, Monitor])
          (init_sys demo_host [''job'']))) = []"
proof -
  have a: "process_finished (exec (spawn_and_start @ [Monitor, Monitor, ChildExit 3, Main, Main])
      (init_sys demo_host [''job'']))
    \<and> length (trace (exec (spawn_and_start @ [Monitor, Monitor, ChildExit 3, Main, Main])
      (init_sys demo_host [''job'']))) = 1
    \<and> cycle_rest (mon_pc (exec (spawn_and_start @ [Monitor, Monitor, ChildExit 3, Main, Main])
      (init_sys demo_host [''job'']))) = 6"
    unfolding eval_in_flight by simp
  have b: "\<not> process_finished (exec (spawn_and_start @ [ChildExit 3, Main]) (init_sys demo_host [''job'']))
    \<and> process_finished (step Main
        (exec (spawn_and_start @ [ChildExit 3, Main]) (init_sys demo_host [''job''])))"
    by (simp add: sys_defs demo_host_def)
  have c: "mon_pc (exec (spawn_and_start @ [ChildExit 3, Main, Main, Monitor])
        (init_sys demo_host [''job''])) = MonStopped
     \<and> trace (exec (spawn_and_start @ [ChildExit 3, Main, Main, Monitor])
        (init_sys demo_host [''job''])) = []"
    by (simp add: sys_defs demo_host_def)
  show ?thesis
    using a b c
      termination_signal_monotone
        [of "exec (spawn_and_start @ [Monitor, Monitor, ChildExit 3, Main, Main])
               (init_sys demo_host [''job''])"
            "spawn_and_start @ [Monitor, Monitor, ChildExit 3, Main, Main]" demo_host "[''job'']"
            "[Monitor, Monitor, Main, Monitor]" Main]
      termination_signal_monotone
        [of "exec (spawn_and_start @ [ChildExit 3, Main]) (init_sys demo_host [''job''])"
            "spawn_and_start @ [ChildExit 3, Main]" demo_host "[''job'']" "[]" Main]
      termination_signal_monotone
        [of "exec (spawn_and_start @ [ChildExit 3, Main, Main, Monitor]) (init_sys demo_host [''job''])"
            "spawn_and_start @ [ChildExit 3, Main, Main, Monitor]" demo_host "[''job'']"
            "[Monitor, Main, Monitor]" Main]
    by simp
qed

subsection \<open>An actuator that raises\<close>

lemma monitor_step_raises:
  assumes "\<not> halted s"
  shows "(mon_pc s = MonAdjustMemory
            \<and> fst (adjust_memory_limit (proc s) (max_memory_bytes s) (host s)) = Some e \<longrightarrow>
          mon_pc (monitor_memory_and_cpu_step s) = MonRaised e
          \<and> trace (monitor_memory_and_cpu_step s) = trace s @ [Invoked Memory (max_memory_bytes s)])
       \<and> (mon_pc s = MonAdjustCpu
            \<and> fst (adjust_cpu_limit (proc s) (max_cpu_percent s) (host s)) = Some e \<longrightarrow>
          mon_pc (monitor_memory_and_cpu_step s) = MonRaised e
          \<and> trace (monitor_memory_and_cpu_step s) = trace s @ [Invoked Cpu (max_cpu_percent s)])"
  using assms
  by (auto simp: monitor_memory_and_cpu_step_def actuate_def split: prod.splits option.splits)

text \<open>
  C2, as stated, fails: on a platform without affinity control the CPU Actuator raises
  \<^verbatim>\<open>AttributeError\<close> in the first cycle, and however many more turns the monitor
  gets, the GPU Actuator is never invoked, in that cycle or later.
\<close>

theorem actuator_isolation_counterexample:
  "mon_pc (exec (spawn_and_start @ [Monitor, Monitor, Monitor, Monitor, Monitor, Monitor,
                                    Monitor, Monitor, Monitor, Monitor, Monitor, Monitor])
            (init_sys (demo_host\<lparr>affinity_api := False\<rparr>) [''job''])) = MonRaised AttributeError
   \<and> trace (exec (spawn_and_start @ [Monitor, Monitor, Monitor, Monitor, Monitor, Monitor,
                                    Monitor, Monitor, Monitor, Monitor, Monitor, Monitor])
            (init_sys (demo_host\<lparr>affinity_api := False\<rparr>) [''job'']))
       = [Queried Memory 1073741824, Queried Cpu 50, Queried Gpu 50,
          Invoked Memory 1073741824, Invoked Cpu 50]
   \<and> Invoked Gpu 50 \<notin> set (trace (exec (spawn_and_start @ [Monitor, Monitor, Monitor, Monitor,
                                    Monitor, Monitor, Monitor, Monitor, Monitor, Monitor, Monitor, Monitor])
            (init_sys (demo_host\<lparr>affinity_api := False\<rparr>) [''job''])))"
  by (simp add: sys_defs demo_host_def actuator_defs)

text \<open>
  C2, amended. In every state a run can reach, a step of the monitor leaves the
  Supervisor's position, the Termination Signal, the child's liveness and its return code
  as they are, so a failure of an actuator neither reaches the Supervisor nor ends the
  child. But nothing catches it: when the Memory or the CPU Actuator raises, the monitor
  records the invocation and its thread ends with that exception; from then on, in every
  continuation, it stays ended and invokes no actuator again.
\<close>

theorem actuator_failure_ends_monitor:
  assumes "s = exec pre (init_sys h args)"
  shows "main_pc (step Monitor s) = main_pc s
         \<and> child (step Monitor s) = child s
         \<and> returncode (step Monitor s) = returncode s
         \<and> process_finished (step Monitor s) = process_finished s
         \<and> (\<not> halted s \<and> mon_pc s = MonAdjustMemory
              \<and> fst (adjust_memory_limit (proc s) (max_memory_bytes s) (host s)) = Some e \<longrightarrow>
            mon_pc (step Monitor s) = MonRaised e
            \<and> trace (step Monitor s) = trace s @ [Invoked Memory (max_memory_bytes s)])
         \<and> (\<not> halted s \<and> mon_pc s = MonAdjustCpu
              \<and> fst (adjust_cpu_limit (proc s) (max_cpu_percent s) (host s)) = Some e \<longrightarrow>
            mon_pc (step Monitor s) = MonRaised e
            \<and> trace (step Monitor s) = trace s @ [Invoked Cpu (max_cpu_percent s)])
         \<and> (mon_pc s = MonRaised e \<longrightarrow>
            mon_pc (exec post s) = MonRaised e \<and> trace (exec post s) = trace s)"
proof -
  have inv: "run_inv s" unfolding assms by (rule run_inv_reachable)
  have frame: "main_pc (step Monitor s) = main_pc s
         \<and> child (step Monitor s) = child s
         \<and> returncode (step Monitor s) = returncode s
         \<and> process_finished (step Monitor s) = process_finished s"
    by (simp add: monitor_step_frame)
  have raise: "(\<not> halted s \<and> mon_pc s = MonAdjustMemory
              \<and> fst (adjust_memory_limit (proc s) (max_memory_bytes s) (host s)) = Some e \<longrightarrow>
            mon_pc (step Monitor s) = MonRaised e
            \<and> trace (step Monitor s) = trace s @ [Invoked Memory (max_memory_bytes s)])
         \<and> (\<not> halted s \<and> mon_pc s = MonAdjustCpu
              \<and> fst (adjust_cpu_limit (proc s) (max_cpu_percent s) (host s)) = Some e \<longrightarrow>
            mon_pc (step Monitor s) = MonRaised e
            \<and> trace (step Monitor s) = trace s @ [Invoked Cpu (max_cpu_percent s)])"
    using monitor_step_raises [of s e] by auto
  have dead: "mon_pc s = MonRaised e \<longrightarrow>
            mon_pc (exec post s) = MonRaised e \<and> trace (exec post s) = trace s"
    using final_exec [OF inv, of e post] by auto
  from frame raise dead show ?thesis by simp
qed

lemma eval_before_cpu:
  "exec (spawn_and_start @ [Monitor, Monitor, Monitor, Monitor, Monitor])
     (init_sys (demo_host\<lparr>affinity_api := False\<rparr>) [''job''])
   = (init_sys (demo_host\<lparr>affinity_api := False\<rparr>) [''job''])
       \<lparr>host := demo_host\<lparr>affinity_api := False, rlimit_as := (1073741824, - 1),
                 procs := [100 \<mapsto> \<lparr>affinity = {0 ..< 8}, niceness = 0\<rparr>], next_pid := 101\<rparr>,
         proc := 100, child := Running, mon_pc := MonAdjustCpu,
         max_memory_bytes := 1073741824, max_cpu_percent := 50, max_gpu_percent := 50,
         trace := [Queried Memory 1073741824, Queried Cpu 50, Queried Gpu 50,
                   Invoked Memory 1073741824],
         main_pc := MainWait\<rparr>"
  by (simp add: sys_defs demo_host_def actuator_defs)

theorem actuator_failure_ends_monitor_witness:
  "mon_pc (exec (spawn_and_start @ [Monitor, Monitor, Monitor, Monitor, Monitor])
      (init_sys (demo_host\<lparr>affinity_api := False\<rparr>) [''job''])) = MonAdjustCpu
   \<and> mon_pc (step Monitor (exec (spawn_and_start @ [Monitor, Monitor, Monitor, Monitor, Monitor])
      (init_sys (demo_host\<lparr>affinity_api := False\<rparr>) [''job'']))) = MonRaised AttributeError
   \<and> main_pc (step Monitor (exec (spawn_and_start @ [Monitor, Monitor, Monitor, Monitor, Monitor])
      (init_sys (demo_host\<lparr>affinity_api := False\<rparr>) [''job'']))) = MainWait
   \<and> child (step Monitor (exec (spawn_and_start @ [Monitor, Monitor, Monitor, Monitor, Monitor])
      (init_sys (demo_host\<lparr>affinity_api := False\<rparr>) [''job'']))) = Running
   \<and> mon_pc (exec [Monitor, Monitor, ChildExit 0, Main, Monitor]
        (exec (spawn_and_start @ [Monitor, Monitor, Monitor, Monitor, Monitor, Monitor])
          (init_sys (demo_host\<lparr>affinity_api := False\<rparr>) [''job'']))) = MonRaised AttributeError
   \<and> trace (exec [Monitor, Monitor, ChildExit 0, Main, Monitor]
        (exec (spawn_and_start @ [Monitor, Monitor, Monitor, Monitor, Monitor, Monitor])
          (init_sys (demo_host\<lparr>affinity_api := False\<rparr>) [''job''])))
       = [Queried Memory 1073741824, Queried Cpu 50, Queried Gpu 50,
          Invoked Memory 1073741824, Invoked Cpu 50]"
proof -
  have a: "\<not> halted (exec (spawn_and_start @ [Monitor, Monitor, Monitor, Monitor, Monitor])
      (init_sys (demo_host\<lparr>affinity_api := False\<rparr>) [''job'']))
    \<and> mon_pc (exec (spawn_and_start @ [Monitor, Monitor, Monitor, Monitor, Monitor])
      (init_sys (demo_host\<lparr>affinity_api := False\<rparr>) [''job''])) = MonAdjustCpu
    \<and> main_pc (exec (spawn_and_start @ [Monitor, Monitor, Monitor, Monitor, Monitor])
      (init_sys (demo_host\<lparr>affinity_api := False\<rparr>) [''job''])) = MainWait
    \<and> child (exec (spawn_and_start @ [Monitor, Monitor, Monitor, Monitor, Monitor])
      (init_sys (demo_host\<lparr>affinity_api := False\<rparr>) [''job''])) = Running
    \<and> fst (adjust_cpu_limit
         (proc (exec (spawn_and_start @ [Monitor, Monitor, Monitor, Monitor, Monitor])
            (init_sys (demo_host\<lparr>affinity_api := False\<rparr>) [''job''])))
         (max_cpu_percent (exec (spawn_and_start @ [Monitor, Monitor, Monitor, Monitor, Monitor])
            (init_sys (demo_host\<lparr>affinity_api := False\<rparr>) [''job''])))
         (host (exec (spawn_and_start @ [Monitor, Monitor, Monitor, Monitor, Monitor])
            (init_sys (demo_host\<lparr>affinity_api := False\<rparr>) [''job''])))) = Some AttributeError"
    unfolding eval_before_cpu
    by (simp add: halted_def init_sys_def adjust_cpu_limit_def psutil_Process_def cpu_affinity_def
        demo_host_def)
  have b: "mon_pc (exec (spawn_and_start @ [Monitor, Monitor, Monitor, Monitor, Monitor, Monitor])
          (init_sys (demo_host\<lparr>affinity_api := False\<rparr>) [''job''])) = MonRaised AttributeError
    \<and> trace (exec (spawn_and_start @ [Monitor, Monitor, Monitor, Monitor, Monitor, Monitor])
          (init_sys (demo_host\<lparr>affinity_api := False\<rparr>) [''job'']))
       = [Queried Memory 1073741824, Queried Cpu 50, Queried Gpu 50,
          Invoked Memory 1073741824, Invoked Cpu 50]"
    by (simp add: sys_defs demo_host_def actuator_defs)
  show ?thesis
    using a b
      actuator_failure_ends_monitor
        [of "exec (spawn_and_start @ [Monitor, Monitor, Monitor, Monitor, Monitor])
               (init_sys (demo_host\<lparr>affinity_api := False\<rparr>) [''job''])"
            "spawn_and_start @ [Monitor, Monitor, Monitor, Monitor, Monitor]"
            "demo_host\<lparr>affinity_api := False\<rparr>" "[''job'']" AttributeError "[]"]
      actuator_failure_ends_monitor
        [of "exec (spawn_and_start @ [Monitor, Monitor, Monitor, Monitor, Monitor, Monitor])
               (init_sys (demo_host\<lparr>affinity_api := False\<rparr>) [''job''])"
            "spawn_and_start @ [Monitor, Monitor, Monitor, Monitor, Monitor, Monitor]"
            "demo_host\<lparr>affinity_api := False\<rparr>" "[''job'']" AttributeError
            "[Monitor, Monitor, ChildExit 0, Main, Monitor]"]
    by simp
qed

subsection \<open>A ceiling the hard limit does not permit\<close>

lemma word_of_int_above:
  assumes "0 \<le> sint (h::64 word)" and "B < 0 \<or> sint h < B" and "- (2 ^ 63) \<le> B" and "B < 2 ^ 63"
  shows "h < (word_of_int B :: 64 word)"
proof -
  have r: "sint h < 2 ^ 63" using sint64_range [of h] by simp
  have e: "h < word_of_int B \<longleftrightarrow> sint h mod 2 ^ 64 < B mod 2 ^ 64"
    using wi_less [of "sint h" B, where ?'a = 64] by simp
  have m: "sint h mod 2 ^ 64 = sint h" using assms(1) r by simp
  show ?thesis
  proof (cases "B < 0")
    case True
    have "B mod 2 ^ 64 = (B + 2 ^ 64) mod 2 ^ 64" by simp
    also have "\<dots> = B + 2 ^ 64" using assms(3) True by (intro mod_pos_pos_trivial) simp_all
    finally have "B mod 2 ^ 64 = B + 2 ^ 64" .
    then show ?thesis using e m r assms(3) by simp
  next
    case False
    then have "B mod 2 ^ 64 = B" using assms(4) by simp
    then show ?thesis using e m False assms(2) by simp
  qed
qed

lemma adjust_memory_limit_invalid:
  assumes "getrlimit t = (soft, hard)" and "0 \<le> hard" and "B < 0 \<or> hard < B"
    and "- (2 ^ 63) \<le> B" and "B < 2 ^ 63"
  shows "adjust_memory_limit p B t = (Some ValueError, t)"
proof -
  have hard: "hard = rlimit2py (snd (rlimit_as t))"
    using assms(1) by (simp add: getrlimit_def)
  have c: "py2rlimit B = Inr (word_of_int B)" using assms(4,5) by (simp add: py2rlimit_def)
  have a: "snd (rlimit_as t) < (word_of_int B :: 64 word)"
    using assms(2,3,4,5) unfolding hard rlimit2py_def by (rule word_of_int_above)
  show ?thesis
    using assms(1) a by (simp add: adjust_memory_limit_def setrlimit_def c hard py2rlimit_rlimit2py)
qed

text \<open>
  C6, as stated, fails: with a hard limit of 512 MiB the ceiling of 1 GiB makes the Memory
  Actuator raise \<^verbatim>\<open>ValueError\<close>, and the loop does not go on to a next cycle:
  its thread ends there, with no other actuator invoked and no sleep. And a negative
  ceiling is not always invalid: without a hard limit, \<open>-1\<close> is accepted (it is
  \<^verbatim>\<open>RLIM_INFINITY\<close>).
\<close>

theorem invalid_limit_counterexample:
  "fst (adjust_memory_limit 100 get_max_memory (demo_host\<lparr>rlimit_as := (- 1, 2 ^ 29)\<rparr>))
     = Some ValueError
   \<and> mon_pc (exec (spawn_and_start @ [Monitor, Monitor, Monitor, Monitor, Monitor, Monitor,
                                    Monitor, Monitor, Monitor, Monitor, Monitor, Monitor])
            (init_sys (demo_host\<lparr>rlimit_as := (- 1, 2 ^ 29)\<rparr>) [''job''])) = MonRaised ValueError
   \<and> trace (exec (spawn_and_start @ [Monitor, Monitor, Monitor, Monitor, Monitor, Monitor,
                                    Monitor, Monitor, Monitor, Monitor, Monitor, Monitor])
            (init_sys (demo_host\<lparr>rlimit_as := (- 1, 2 ^ 29)\<rparr>) [''job'']))
       = [Queried Memory 1073741824, Queried Cpu 50, Queried Gpu 50, Invoked Memory 1073741824]
   \<and> adjust_memory_limit 100 (- 1) demo_host = (None, demo_host)"
  by (simp add: sys_defs demo_host_def actuator_defs)

text \<open>
  C6, amended. Under a finite hard limit (one that \<^verbatim>\<open>getrlimit\<close> reports as
  non-negative), every ceiling a C long can hold that is negative or above the hard limit
  makes \<open>adjust_memory_limit\<close> raise \<^verbatim>\<open>ValueError\<close> and change nothing. When
  the Memory Actuator raises in the loop, the failure is local to the monitor (the
  Supervisor and the child are as before), but the loop does not continue: the thread ends
  with the exception and, in every continuation, the trace ends with that invocation.
\<close>

theorem invalid_memory_ceiling_ends_monitor:
  assumes "s = exec pre (init_sys h args)"
  shows "(getrlimit t = (soft, hard) \<and> 0 \<le> hard \<and> (B < 0 \<or> hard < B)
            \<and> - (2 ^ 63) \<le> B \<and> B < 2 ^ 63 \<longrightarrow>
          adjust_memory_limit p B t = (Some ValueError, t))
         \<and> (\<not> halted s \<and> mon_pc s = MonAdjustMemory
            \<and> fst (adjust_memory_limit (proc s) (max_memory_bytes s) (host s)) = Some e \<longrightarrow>
          mon_pc (step Monitor s) = MonRaised e
          \<and> trace (step Monitor s) = trace s @ [Invoked Memory (max_memory_bytes s)]
          \<and> mon_pc (exec post (step Monitor s)) = MonRaised e
          \<and> trace (exec post (step Monitor s)) = trace s @ [Invoked Memory (max_memory_bytes s)]
          \<and> main_pc (step Monitor s) = main_pc s
          \<and> child (step Monitor s) = child s)"
proof -
  have inv: "run_inv (step Monitor s)" unfolding assms by (intro run_inv_step run_inv_reachable)
  have one: "getrlimit t = (soft, hard) \<and> 0 \<le> hard \<and> (B < 0 \<or> hard < B)
            \<and> - (2 ^ 63) \<le> B \<and> B < 2 ^ 63 \<longrightarrow>
          adjust_memory_limit p B t = (Some ValueError, t)"
    using adjust_memory_limit_invalid [of t soft hard B p] by blast
  have two: "\<not> halted s \<and> mon_pc s = MonAdjustMemory
            \<and> fst (adjust_memory_limit (proc s) (max_memory_bytes s) (host s)) = Some e \<longrightarrow>
          mon_pc (step Monitor s) = MonRaised e
          \<and> trace (step Monitor s) = trace s @ [Invoked Memory (max_memory_bytes s)]
          \<and> mon_pc (exec post (step Monitor s)) = MonRaised e
          \<and> trace (exec post (step Monitor s)) = trace s @ [Invoked Memory (max_memory_bytes s)]
          \<and> main_pc (step Monitor s) = main_pc s
          \<and> child (step Monitor s) = child s"
  proof
    assume c: "\<not> halted s \<and> mon_pc s = MonAdjustMemory
            \<and> fst (adjust_memory_limit (proc s) (max_memory_bytes s) (host s)) = Some e"
    then have r: "mon_pc (step Monitor s) = MonRaised e
          \<and> trace (step Monitor s) = trace s @ [Invoked Memory (max_memory_bytes s)]"
      using monitor_step_raises [of s e] by simp
    then have "mon_pc (exec post (step Monitor s)) = mon_pc (step Monitor s)
               \<and> trace (exec post (step Monitor s)) = trace (step Monitor s)"
      using final_exec [OF inv, of e post] by simp
    with r show "mon_pc (step Monitor s) = MonRaised e
          \<and> trace (step Monitor s) = trace s @ [Invoked Memory (max_memory_bytes s)]
          \<and> mon_pc (exec post (step Monitor s)) = MonRaised e
          \<and> trace (exec post (step Monitor s)) = trace s @ [Invoked Memory (max_memory_bytes s)]
          \<and> main_pc (step Monitor s) = main_pc s
          \<and> child (step Monitor s) = child s"
      by (simp add: monitor_step_frame)
  qed
  from one two show ?thesis by simp
qed

lemma eval_before_memory:
  "exec (spawn_and_start @ [Monitor, Monitor, Monitor, Monitor])
     (init_sys (demo_host\<lparr>rlimit_as := (- 1, 2 ^ 29)\<rparr>) [''job''])
   = (init_sys (demo_host\<lparr>rlimit_as := (- 1, 2 ^ 29)\<rparr>) [''job''])
       \<lparr>host := demo_host\<lparr>rlimit_as := (- 1, 2 ^ 29),
                 procs := [100 \<mapsto> \<lparr>affinity = {0 ..< 8}, niceness = 0\<rparr>], next_pid := 101\<rparr>,
         proc := 100, child := Running, mon_pc := MonAdjustMemory,
         max_memory_bytes := 1073741824, max_cpu_percent := 50, max_gpu_percent := 50,
         trace := [Queried Memory 1073741824, Queried Cpu 50, Queried Gpu 50],
         main_pc := MainWait\<rparr>"
  by (simp add: sys_defs demo_host_def actuator_defs)

theorem invalid_memory_ceiling_ends_monitor_witness:
  "getrlimit (demo_host\<lparr>rlimit_as := (- 1, 2 ^ 29)\<rparr>) = (- 1, 2 ^ 29)
   \<and> adjust_memory_limit 100 (2 ^ 30) (demo_host\<lparr>rlimit_as := (- 1, 2 ^ 29)\<rparr>)
       = (Some ValueError, demo_host\<lparr>rlimit_as := (- 1, 2 ^ 29)\<rparr>)
   \<and> adjust_memory_limit 100 (- 7) (demo_host\<lparr>rlimit_as := (- 1, 2 ^ 29)\<rparr>)
       = (Some ValueError, demo_host\<lparr>rlimit_as := (- 1, 2 ^ 29)\<rparr>)
   \<and> mon_pc (exec (spawn_and_start @ [Monitor, Monitor, Monitor, Monitor])
        (init_sys (demo_host\<lparr>rlimit_as := (- 1, 2 ^ 29)\<rparr>) [''job''])) = MonAdjustMemory
   \<and> mon_pc (exec [Monitor, ChildExit 0, Main, Main, Monitor]
        (step Monitor (exec (spawn_and_start @ [Monitor, Monitor, Monitor, Monitor])
          (init_sys (demo_host\<lparr>rlimit_as := (- 1, 2 ^ 29)\<rparr>) [''job'']))))
       = MonRaised ValueError
   \<and> trace (exec [Monitor, ChildExit 0, Main, Main, Monitor]
        (step Monitor (exec (spawn_and_start @ [Monitor, Monitor, Monitor, Monitor])
          (init_sys (demo_host\<lparr>rlimit_as := (- 1, 2 ^ 29)\<rparr>) [''job'']))))
       = [Queried Memory 1073741824, Queried Cpu 50, Queried Gpu 50, Invoked Memory 1073741824]"
proof -
  have g: "getrlimit (demo_host\<lparr>rlimit_as := (- 1, 2 ^ 29)\<rparr>) = (- 1, 2 ^ 29)"
    by (simp add: getrlimit_def rlimit2py_def)
  have a: "\<not> halted (exec (spawn_and_start @ [Monitor, Monitor, Monitor, Monitor])
        (init_sys (demo_host\<lparr>rlimit_as := (- 1, 2 ^ 29)\<rparr>) [''job'']))
     \<and> mon_pc (exec (spawn_and_start @ [Monitor, Monitor, Monitor, Monitor])
        (init_sys (demo_host\<lparr>rlimit_as := (- 1, 2 ^ 29)\<rparr>) [''job''])) = MonAdjustMemory
     \<and> trace (exec (spawn_and_start @ [Monitor, Monitor, Monitor, Monitor])
        (init_sys (demo_host\<lparr>rlimit_as := (- 1, 2 ^ 29)\<rparr>) [''job'']))
        = [Queried Memory 1073741824, Queried Cpu 50, Queried Gpu 50]
     \<and> max_memory_bytes (exec (spawn_and_start @ [Monitor, Monitor, Monitor, Monitor])
        (init_sys (demo_host\<lparr>rlimit_as := (- 1, 2 ^ 29)\<rparr>) [''job''])) = 1073741824
     \<and> fst (adjust_memory_limit
         (proc (exec (spawn_and_start @ [Monitor, Monitor, Monitor, Monitor])
            (init_sys (demo_host\<lparr>rlimit_as := (- 1, 2 ^ 29)\<rparr>) [''job''])))
         (max_memory_bytes (exec (spawn_and_start @ [Monitor, Monitor, Monitor, Monitor])
            (init_sys (demo_host\<lparr>rlimit_as := (- 1, 2 ^ 29)\<rparr>) [''job''])))
         (host (exec (spawn_and_start @ [Monitor, Monitor, Monitor, Monitor])
            (init_sys (demo_host\<lparr>rlimit_as := (- 1, 2 ^ 29)\<rparr>) [''job''])))) = Some ValueError"
    unfolding eval_before_memory
    by (simp add: halted_def init_sys_def demo_host_def actuator_defs)
  show ?thesis
    using g a
      invalid_memory_ceiling_ends_monitor
        [of "exec (spawn_and_start @ [Monitor, Monitor, Monitor, Monitor])
               (init_sys (demo_host\<lparr>rlimit_as := (- 1, 2 ^ 29)\<rparr>) [''job''])"
            "spawn_and_start @ [Monitor, Monitor, Monitor, Monitor]"
            "demo_host\<lparr>rlimit_as := (- 1, 2 ^ 29)\<rparr>" "[''job'']"
            "demo_host\<lparr>rlimit_as := (- 1, 2 ^ 29)\<rparr>" "- 1" "2 ^ 29" "2 ^ 30" 100
            ValueError "[Monitor, ChildExit 0, Main, Main, Monitor]"]
      invalid_memory_ceiling_ends_monitor
        [of "exec (spawn_and_start @ [Monitor, Monitor, Monitor, Monitor])
               (init_sys (demo_host\<lparr>rlimit_as := (- 1, 2 ^ 29)\<rparr>) [''job''])"
            "spawn_and_start @ [Monitor, Monitor, Monitor, Monitor]"
            "demo_host\<lparr>rlimit_as := (- 1, 2 ^ 29)\<rparr>" "[''job'']"
            "demo_host\<lparr>rlimit_as := (- 1, 2 ^ 29)\<rparr>" "- 1" "2 ^ 29" "- 7" 100
            ValueError "[]"]
    unfolding eval_before_memory
    by (simp add: init_sys_def)
qed

subsection \<open>The shape of the monitor's trace\<close>














subsection \<open>One cycle, statement by statement\<close>

















end
